theory Spec2Isabelle
  imports Complex_Main "HOL-Library.Sublist"
begin

section \<open>Python values as the data manager sees them\<close>

text \<open>
  The manager of \<^verbatim>\<open>utils.py\<close> holds seven documents produced by \<^verbatim>\<open>json.load\<close>
  and hands out parts of them.  Every record is a Python \<^verbatim>\<open>dict\<close> with string keys
  and dynamically typed values, so the model has one type of values.  A number is the
  rational it denotes (Python's \<^verbatim>\<open>int\<close> and finite \<^verbatim>\<open>float\<close> compare and test for
  truth by that value; rounding of float arithmetic is not represented), \<open>PInf\<close> is
  \<^verbatim>\<open>float("inf")\<close>, the default the filter uses for upper bounds.  A dictionary is an
  association list in document order, read through \<open>map_of\<close>; its keys are distinct
  in every value that comes from a JSON file.
\<close>

datatype pyval =
    PNone
  | PBool bool
  | PNum rat
  | PInf
  | PStr string
  | PList "pyval list"
  | PDict "(string \<times> pyval) list"

datatype error = AttributeError | TypeError | ZeroDivisionError

type_synonym 'a result = "error + 'a"

fun and_then :: "'a result \<Rightarrow> ('a \<Rightarrow> 'b result) \<Rightarrow> 'b result" where
  "and_then (Inl e) f = Inl e"
| "and_then (Inr v) f = f v"

subsection \<open>Truth value, numbers, equality\<close>

fun py_truthy :: "pyval \<Rightarrow> bool" where
  "py_truthy PNone = False"
| "py_truthy (PBool b) = b"
| "py_truthy (PNum r) = (r \<noteq> 0)"
| "py_truthy PInf = True"
| "py_truthy (PStr s) = (s \<noteq> [])"
| "py_truthy (PList xs) = (xs \<noteq> [])"
| "py_truthy (PDict d) = (d \<noteq> [])"

datatype xnum = Fin rat | Inf

fun as_num :: "pyval \<Rightarrow> xnum option" where
  "as_num (PBool b) = Some (Fin (if b then 1 else 0))"
| "as_num (PNum r) = Some (Fin r)"
| "as_num PInf = Some Inf"
| "as_num v = None"

fun xnum_lt :: "xnum \<Rightarrow> xnum \<Rightarrow> bool" where
  "xnum_lt (Fin a) (Fin b) = (a < b)"
| "xnum_lt (Fin a) Inf = True"
| "xnum_lt Inf y = False"

text \<open>
  \<^verbatim>\<open>a == b\<close>: numbers and booleans by value, strings and lists by content, dictionaries
  as mappings (same keys, equal values, whatever the order).
\<close>

fun py_eq :: "pyval \<Rightarrow> pyval \<Rightarrow> bool" where
  "py_eq (PList xs) (PList ys) = list_all2 py_eq xs ys"
| "py_eq (PDict d) (PDict d') =
     (length d = length d' \<and>
      list_all (\<lambda>(k, v). case map_of d' k of None \<Rightarrow> False | Some w \<Rightarrow> py_eq v w) d)"
| "py_eq (PStr s) (PStr t) = (s = t)"
| "py_eq PNone PNone = True"
| "py_eq a b = (case (as_num a, as_num b) of (Some x, Some y) \<Rightarrow> x = y | _ \<Rightarrow> False)"

subsection \<open>Strings\<close>

text \<open>
  \<^verbatim>\<open>str.lower()\<close> on the ASCII letters (other bytes are left alone), \<^verbatim>\<open>s in t\<close> on
  two strings, and the order of strings by code point.
\<close>

definition lower_char :: "char \<Rightarrow> char" where
  "lower_char c =
     (if 65 \<le> (of_char c :: nat) \<and> (of_char c :: nat) \<le> 90
      then char_of ((of_char c :: nat) + 32) else c)"

definition lower :: "string \<Rightarrow> string" where
  "lower s = map lower_char s"

fun contains :: "string \<Rightarrow> string \<Rightarrow> bool" where
  "contains [] sub = (sub = [])"
| "contains (c # cs) sub = (prefix sub (c # cs) \<or> contains cs sub)"

fun str_lt :: "string \<Rightarrow> string \<Rightarrow> bool" where
  "str_lt [] [] = False"
| "str_lt [] (d # ds) = True"
| "str_lt (c # cs) [] = False"
| "str_lt (c # cs) (d # ds) =
     (if c = d then str_lt cs ds else (of_char c :: nat) < of_char d)"

subsection \<open>Operations that can raise\<close>

text \<open>
  \<^verbatim>\<open>a < b\<close>: defined between numbers (booleans count as 0 and 1), between strings and
  between lists (at the first pair of unequal elements); every other pair raises
  \<^verbatim>\<open>TypeError\<close>.  \<^verbatim>\<open>a > b\<close> is \<open>py_lt b a\<close>.
\<close>

function (sequential) py_lt :: "pyval \<Rightarrow> pyval \<Rightarrow> bool result"
  and list_lt :: "pyval list \<Rightarrow> pyval list \<Rightarrow> bool result" where
  "py_lt (PList xs) (PList ys) = list_lt xs ys"
| "py_lt (PStr s) (PStr t) = Inr (str_lt s t)"
| "py_lt a b =
     (case (as_num a, as_num b) of
        (Some x, Some y) \<Rightarrow> Inr (xnum_lt x y)
      | _ \<Rightarrow> Inl TypeError)"
| "list_lt [] [] = Inr False"
| "list_lt [] (y # ys) = Inr True"
| "list_lt (x # xs) [] = Inr False"
| "list_lt (x # xs) (y # ys) = (if py_eq x y then list_lt xs ys else py_lt x y)"
  by pat_completeness auto
termination
  by (relation "measure (\<lambda>v. case v of Inl (a, b) \<Rightarrow> size a
                                     | Inr (xs, ys) \<Rightarrow> size_list size xs)") auto

text \<open>
  \<^verbatim>\<open>d.get(key, default)\<close>: only a dictionary has the method; a list or a dictionary
  as the key cannot be hashed; a key that is no string is in no JSON dictionary.
\<close>

fun py_get :: "pyval \<Rightarrow> pyval \<Rightarrow> pyval \<Rightarrow> pyval result" where
  "py_get (PDict d) (PStr k) dflt = Inr (case map_of d k of None \<Rightarrow> dflt | Some v \<Rightarrow> v)"
| "py_get (PDict d) (PList xs) dflt = Inl TypeError"
| "py_get (PDict d) (PDict d') dflt = Inl TypeError"
| "py_get (PDict d) key dflt = Inr dflt"
| "py_get v key dflt = Inl AttributeError"

text \<open>\<^verbatim>\<open>v.lower()\<close>: a method of strings only.\<close>

fun py_lower :: "pyval \<Rightarrow> pyval result" where
  "py_lower (PStr s) = Inr (PStr (lower s))"
| "py_lower v = Inl AttributeError"

text \<open>
  \<^verbatim>\<open>for x in v\<close>: the elements of a list, the keys of a dictionary, the characters of
  a string; anything else is not iterable.
\<close>

fun py_iter :: "pyval \<Rightarrow> pyval list result" where
  "py_iter (PList xs) = Inr xs"
| "py_iter (PDict d) = Inr (map (\<lambda>kv. PStr (fst kv)) d)"
| "py_iter (PStr s) = Inr (map (\<lambda>c. PStr [c]) s)"
| "py_iter v = Inl TypeError"

fun py_len :: "pyval \<Rightarrow> nat result" where
  "py_len (PList xs) = Inr (length xs)"
| "py_len (PDict d) = Inr (length d)"
| "py_len (PStr s) = Inr (length s)"
| "py_len v = Inl TypeError"

text \<open>\<^verbatim>\<open>x in c\<close> for a list, a string or a dictionary \<open>c\<close>.\<close>

fun py_in :: "pyval \<Rightarrow> pyval \<Rightarrow> bool result" where
  "py_in x (PList ys) = Inr (list_ex (py_eq x) ys)"
| "py_in (PStr t) (PStr s) = Inr (contains s t)"
| "py_in x (PStr s) = Inl TypeError"
| "py_in (PStr k) (PDict d) = Inr (map_of d k \<noteq> None)"
| "py_in (PList xs) (PDict d) = Inl TypeError"
| "py_in (PDict d') (PDict d) = Inl TypeError"
| "py_in x (PDict d) = Inr False"
| "py_in x c = Inl TypeError"

text \<open>\<^verbatim>\<open>a + b\<close> and \<^verbatim>\<open>a / n\<close> as \<^verbatim>\<open>sum(...) / len(...)\<close> uses them: on numbers.\<close>

fun xnum_add :: "xnum \<Rightarrow> xnum \<Rightarrow> pyval" where
  "xnum_add (Fin a) (Fin b) = PNum (a + b)"
| "xnum_add x y = PInf"

definition py_add :: "pyval \<Rightarrow> pyval \<Rightarrow> pyval result" where
  "py_add a b =
     (case (as_num a, as_num b) of
        (Some x, Some y) \<Rightarrow> Inr (xnum_add x y)
      | _ \<Rightarrow> Inl TypeError)"

definition py_div :: "pyval \<Rightarrow> nat \<Rightarrow> pyval result" where
  "py_div a n =
     (case as_num a of
        None \<Rightarrow> Inl TypeError
      | Some x \<Rightarrow>
          if n = 0 then Inl ZeroDivisionError
          else Inr (case x of Fin r \<Rightarrow> PNum (r / of_nat n) | Inf \<Rightarrow> PInf))"

section \<open>The filter and the data manager\<close>

text \<open>
  \<^verbatim>\<open>PropertyFilter\<close>: eleven fields, each \<^verbatim>\<open>None\<close> unless set.  The fields are
  dynamically typed as in Python (\<open>match_clients_to_properties\<close> fills them with
  whatever the client record holds).
\<close>

record PropertyFilter =
  min_price :: pyval
  max_price :: pyval
  min_bedrooms :: pyval
  max_bedrooms :: pyval
  min_bathrooms :: pyval
  max_bathrooms :: pyval
  areas :: pyval
  property_types :: pyval
  min_sqft :: pyval
  max_sqft :: pyval
  features :: pyval

definition unset_filter :: PropertyFilter where
  "unset_filter =
     \<lparr>min_price = PNone, max_price = PNone, min_bedrooms = PNone, max_bedrooms = PNone,
      min_bathrooms = PNone, max_bathrooms = PNone, areas = PNone, property_types = PNone,
      min_sqft = PNone, max_sqft = PNone, features = PNone\<rparr>"

text \<open>
  \<^verbatim>\<open>RealEstateDataManager\<close> after \<^verbatim>\<open>_load_all_data\<close>: the seven loaded documents
  (the attribute \<^verbatim>\<open>self.areas\<close> is the field \<open>areas_doc\<close>, since the filter has a
  field \<open>areas\<close> too).
\<close>

record manager =
  properties :: pyval
  agents :: pyval
  market :: pyval
  clients :: pyval
  amenities :: pyval
  transactions :: pyval
  areas_doc :: pyval

subsection \<open>Property operations\<close>

definition get_all_properties :: "manager \<Rightarrow> pyval result" where
  "get_all_properties s = py_get (properties s) (PStr ''active_listings'') (PList [])"

text \<open>
  The loop of \<^verbatim>\<open>get_property_by_id\<close>, \<^verbatim>\<open>get_agent_by_id\<close> and
  \<^verbatim>\<open>get_client_by_id\<close> (the same three lines in each): return the first record
  whose \<^verbatim>\<open>id\<close> equals the argument, \<^verbatim>\<open>None\<close> after the last one.
\<close>

fun first_with_id :: "pyval list \<Rightarrow> pyval \<Rightarrow> pyval result" where
  "first_with_id [] wanted = Inr PNone"
| "first_with_id (r # rest) wanted =
     and_then (py_get r (PStr ''id'') PNone)
       (\<lambda>v. if py_eq v wanted then Inr r else first_with_id rest wanted)"

definition get_property_by_id :: "manager \<Rightarrow> pyval \<Rightarrow> pyval result" where
  "get_property_by_id s property_id =
     and_then (get_all_properties s) (\<lambda>listing.
     and_then (py_iter listing) (\<lambda>props. first_with_id props property_id))"

text \<open>\<^verbatim>\<open>bound and prop.get(key, 0) < bound\<close>\<close>

definition below_min :: "pyval \<Rightarrow> pyval \<Rightarrow> string \<Rightarrow> bool result" where
  "below_min bound prop key =
     (if py_truthy bound
      then and_then (py_get prop (PStr key) (PNum 0)) (\<lambda>v. py_lt v bound)
      else Inr False)"

text \<open>\<^verbatim>\<open>bound and prop.get(key, float("inf")) > bound\<close>\<close>

definition above_max :: "pyval \<Rightarrow> pyval \<Rightarrow> string \<Rightarrow> bool result" where
  "above_max bound prop key =
     (if py_truthy bound
      then and_then (py_get prop (PStr key) PInf) (\<lambda>v. py_lt bound v)
      else Inr False)"

text \<open>\<^verbatim>\<open>allowed and prop.get(key) not in allowed\<close>\<close>

definition not_among :: "pyval \<Rightarrow> pyval \<Rightarrow> string \<Rightarrow> bool result" where
  "not_among allowed prop key =
     (if py_truthy allowed
      then and_then (py_get prop (PStr key) PNone) (\<lambda>v.
           and_then (py_in v allowed) (\<lambda>b. Inr (\<not> b)))
      else Inr False)"

text \<open>
  \<^verbatim>\<open>any(required_feature.lower() in feature.lower() for feature in prop_features)\<close>
\<close>

fun any_feature :: "pyval \<Rightarrow> pyval list \<Rightarrow> bool result" where
  "any_feature required_feature [] = Inr False"
| "any_feature required_feature (feature # rest) =
     and_then (py_lower required_feature) (\<lambda>r.
     and_then (py_lower feature) (\<lambda>f.
     and_then (py_in r f) (\<lambda>b.
       if b then Inr True else any_feature required_feature rest)))"

text \<open>The loop over \<^verbatim>\<open>filters.features\<close>, falling through to \<^verbatim>\<open>return True\<close>.\<close>

fun all_features :: "pyval list \<Rightarrow> pyval \<Rightarrow> bool result" where
  "all_features [] prop_features = Inr True"
| "all_features (required_feature # rest) prop_features =
     and_then (py_iter prop_features) (\<lambda>fs.
     and_then (any_feature required_feature fs) (\<lambda>found.
       if \<not> found then Inr False else all_features rest prop_features))"

text \<open>\<^verbatim>\<open>if check: return False\<close>, then the rest of the function.\<close>

definition reject_if :: "bool result \<Rightarrow> bool result \<Rightarrow> bool result" where
  "reject_if check rest = and_then check (\<lambda>b. if b then Inr False else rest)"

definition matches_filter :: "pyval \<Rightarrow> PropertyFilter \<Rightarrow> bool result" where
  "matches_filter prop filters =
     reject_if (below_min (min_price filters) prop ''price'')
    (reject_if (above_max (max_price filters) prop ''price'')
    (reject_if (below_min (min_bedrooms filters) prop ''bedrooms'')
    (reject_if (above_max (max_bedrooms filters) prop ''bedrooms'')
    (reject_if (below_min (min_bathrooms filters) prop ''bathrooms'')
    (reject_if (above_max (max_bathrooms filters) prop ''bathrooms'')
    (reject_if (not_among (areas filters) prop ''area'')
    (reject_if (not_among (property_types filters) prop ''property_type'')
    (reject_if (below_min (min_sqft filters) prop ''square_feet'')
    (reject_if (above_max (max_sqft filters) prop ''square_feet'')
    (if py_truthy (features filters)
     then and_then (py_get prop (PStr ''features'') (PList [])) (\<lambda>prop_features.
          and_then (py_iter (features filters)) (\<lambda>required.
            all_features required prop_features))
     else Inr True))))))))))"

fun filter_loop :: "pyval list \<Rightarrow> PropertyFilter \<Rightarrow> pyval list result" where
  "filter_loop [] filters = Inr []"
| "filter_loop (prop # rest) filters =
     and_then (matches_filter prop filters) (\<lambda>m.
     and_then (filter_loop rest filters) (\<lambda>filtered.
       Inr (if m then prop # filtered else filtered)))"

definition filter_properties :: "manager \<Rightarrow> PropertyFilter \<Rightarrow> pyval result" where
  "filter_properties s filters =
     and_then (get_all_properties s) (\<lambda>listing.
     and_then (py_iter listing) (\<lambda>props.
     and_then (filter_loop props filters) (\<lambda>filtered. Inr (PList filtered))))"

subsection \<open>Agents, market, clients\<close>

definition get_all_agents :: "manager \<Rightarrow> pyval result" where
  "get_all_agents s = py_get (agents s) (PStr ''agents'') (PList [])"

definition get_agent_by_id :: "manager \<Rightarrow> pyval \<Rightarrow> pyval result" where
  "get_agent_by_id s agent_id =
     and_then (get_all_agents s) (\<lambda>listing.
     and_then (py_iter listing) (\<lambda>recs. first_with_id recs agent_id))"

definition get_area_market_data :: "manager \<Rightarrow> pyval \<Rightarrow> pyval result" where
  "get_area_market_data s area =
     and_then (py_get (market s) (PStr ''area_performance'') (PDict [])) (\<lambda>area_performance.
       py_get area_performance area PNone)"

definition get_all_clients :: "manager \<Rightarrow> pyval result" where
  "get_all_clients s = py_get (clients s) (PStr ''clients'') (PList [])"

definition get_client_by_id :: "manager \<Rightarrow> pyval \<Rightarrow> pyval result" where
  "get_client_by_id s client_id =
     and_then (get_all_clients s) (\<lambda>listing.
     and_then (py_iter listing) (\<lambda>recs. first_with_id recs client_id))"

definition match_clients_to_properties :: "manager \<Rightarrow> pyval \<Rightarrow> pyval result" where
  "match_clients_to_properties s client_id =
     and_then (get_client_by_id s client_id) (\<lambda>client.
       if \<not> py_truthy client then Inr (PList [])
       else
     and_then (py_get client (PStr ''type'') PNone) (\<lambda>client_type.
       if \<not> py_eq client_type (PStr ''Buyer'') then Inr (PList [])
       else
     and_then (py_get client (PStr ''preferences'') (PDict [])) (\<lambda>preferences.
     and_then (py_get preferences (PStr ''budget_range'') (PDict [])) (\<lambda>budget.
     and_then (py_get budget (PStr ''min'') PNone) (\<lambda>lo.
     and_then (py_get budget (PStr ''max'') PNone) (\<lambda>hi.
     and_then (py_get preferences (PStr ''desired_areas'') PNone) (\<lambda>desired.
     and_then (py_get preferences (PStr ''property_type'') PNone) (\<lambda>ptype.
       filter_properties s
         (unset_filter\<lparr>min_price := lo, max_price := hi, areas := desired,
            property_types := (if py_truthy ptype then PList [ptype] else PNone)\<rparr>)))))))))"

subsection \<open>Amenities, transactions, areas\<close>

definition school_types :: "string list" where
  "school_types =
     [''elementary_schools'', ''middle_schools'', ''high_schools'', ''private_schools'']"

text \<open>
  The loop of \<^verbatim>\<open>get_schools_by_area\<close>: \<^verbatim>\<open>all_schools.extend(schools_data.get(t, []))\<close>
  for each school type in turn.
\<close>

fun extend_schools :: "pyval \<Rightarrow> string list \<Rightarrow> pyval list \<Rightarrow> pyval list result" where
  "extend_schools schools_data [] all_schools = Inr all_schools"
| "extend_schools schools_data (school_type # rest) all_schools =
     and_then (py_get schools_data (PStr school_type) (PList [])) (\<lambda>schools.
     and_then (py_iter schools) (\<lambda>xs.
       extend_schools schools_data rest (all_schools @ xs)))"

definition get_schools_by_area :: "manager \<Rightarrow> pyval \<Rightarrow> pyval result" where
  "get_schools_by_area s area =
     and_then (py_get (amenities s) (PStr ''schools'') (PDict [])) (\<lambda>schools_data.
     and_then (extend_schools schools_data school_types []) (\<lambda>all_schools.
       Inr (PList all_schools)))"

definition get_amenities_by_type :: "manager \<Rightarrow> pyval \<Rightarrow> pyval result" where
  "get_amenities_by_type s amenity_type = py_get (amenities s) amenity_type (PDict [])"

text \<open>\<^verbatim>\<open>rec.get(key, "").lower() == name.lower()\<close>, evaluated left to right.\<close>

definition lower_field_is :: "string \<Rightarrow> pyval \<Rightarrow> pyval \<Rightarrow> bool result" where
  "lower_field_is key rec name =
     and_then (py_get rec (PStr key) (PStr [])) (\<lambda>v.
     and_then (py_lower v) (\<lambda>l.
     and_then (py_lower name) (\<lambda>r. Inr (py_eq l r))))"

text \<open>
  The comprehension \<^verbatim>\<open>[x for x in xs if x.get("area", "").lower() == area.lower()]\<close>
  of \<^verbatim>\<open>get_sales_by_area\<close> and \<^verbatim>\<open>get_area_amenities\<close>.
\<close>

fun in_area :: "pyval list \<Rightarrow> pyval \<Rightarrow> pyval list result" where
  "in_area [] area = Inr []"
| "in_area (x # xs) area =
     and_then (lower_field_is ''area'' x area) (\<lambda>m.
     and_then (in_area xs area) (\<lambda>kept. Inr (if m then x # kept else kept)))"

text \<open>The loop over \<^verbatim>\<open>shopping.items()\<close>; only list values are kept.\<close>

fun area_shopping :: "(string \<times> pyval) list \<Rightarrow> pyval \<Rightarrow> (string \<times> pyval) list result" where
  "area_shopping [] area = Inr []"
| "area_shopping ((shop_type, PList shops) # rest) area =
     and_then (in_area shops area) (\<lambda>kept.
     and_then (area_shopping rest area) (\<lambda>others. Inr ((shop_type, PList kept) # others)))"
| "area_shopping ((shop_type, shops) # rest) area = area_shopping rest area"

fun py_items :: "pyval \<Rightarrow> (string \<times> pyval) list result" where
  "py_items (PDict d) = Inr d"
| "py_items v = Inl AttributeError"

definition get_area_amenities :: "manager \<Rightarrow> pyval \<Rightarrow> pyval result" where
  "get_area_amenities s area =
     and_then (get_schools_by_area s area) (\<lambda>schools.
     and_then (py_get (amenities s) (PStr ''parks_and_recreation'') (PDict [])) (\<lambda>recreation.
     and_then (py_get recreation (PStr ''parks'') (PList [])) (\<lambda>parks.
     and_then (py_iter parks) (\<lambda>ps.
     and_then (in_area ps area) (\<lambda>area_parks.
     and_then (py_get (amenities s) (PStr ''shopping'') (PDict [])) (\<lambda>shopping.
     and_then (py_items shopping) (\<lambda>items.
     and_then (area_shopping items area) (\<lambda>shops.
       Inr (PDict [(''schools'', schools), (''parks'', PList area_parks),
                   (''shopping'', PDict shops)])))))))))"

definition get_recent_sales :: "manager \<Rightarrow> pyval result" where
  "get_recent_sales s = py_get (transactions s) (PStr ''recent_sales'') (PList [])"

definition get_sales_by_area :: "manager \<Rightarrow> pyval \<Rightarrow> pyval result" where
  "get_sales_by_area s area =
     and_then (get_recent_sales s) (\<lambda>sales.
     and_then (py_iter sales) (\<lambda>recs.
     and_then (in_area recs area) (\<lambda>kept. Inr (PList kept))))"

text \<open>\<^verbatim>\<open>sum(sale.get(key, 0) for sale in sales)\<close>, from the start value 0.\<close>

fun sum_field :: "pyval list \<Rightarrow> string \<Rightarrow> pyval \<Rightarrow> pyval result" where
  "sum_field [] key acc = Inr acc"
| "sum_field (sale # rest) key acc =
     and_then (py_get sale (PStr key) (PNum 0)) (\<lambda>v.
     and_then (py_add acc v) (\<lambda>acc'. sum_field rest key acc'))"

definition average :: "pyval \<Rightarrow> string \<Rightarrow> nat \<Rightarrow> pyval result" where
  "average sales key total_sales =
     and_then (py_iter sales) (\<lambda>recs.
     and_then (sum_field recs key (PNum 0)) (\<lambda>total. py_div total total_sales))"

text \<open>\<^verbatim>\<open>self.get_sales_by_area(area) if area else self.get_recent_sales()\<close>\<close>

definition selected_sales :: "manager \<Rightarrow> pyval \<Rightarrow> pyval result" where
  "selected_sales s area =
     (if py_truthy area then get_sales_by_area s area else get_recent_sales s)"

definition calculate_market_trends :: "manager \<Rightarrow> pyval \<Rightarrow> pyval result" where
  "calculate_market_trends s area =
     and_then (selected_sales s area) (\<lambda>sales.
       if \<not> py_truthy sales then Inr (PDict [])
       else
     and_then (py_len sales) (\<lambda>total_sales.
     and_then (average sales ''sale_price'' total_sales) (\<lambda>avg_sale_price.
     and_then (average sales ''days_on_market'' total_sales) (\<lambda>avg_days_on_market.
     and_then (average sales ''price_per_sqft'' total_sales) (\<lambda>avg_price_per_sqft.
       Inr (PDict
         [(''total_sales'', PNum (of_nat total_sales)),
          (''average_sale_price'', avg_sale_price),
          (''average_days_on_market'', avg_days_on_market),
          (''average_price_per_sqft'', avg_price_per_sqft),
          (''area'', if py_truthy area then area else PStr ''All Areas'')]))))))"

definition get_all_areas :: "manager \<Rightarrow> pyval result" where
  "get_all_areas s = py_get (areas_doc s) (PStr ''areas'') (PList [])"

fun first_with_name :: "pyval list \<Rightarrow> pyval \<Rightarrow> pyval result" where
  "first_with_name [] area_name = Inr PNone"
| "first_with_name (area # rest) area_name =
     and_then (lower_field_is ''name'' area area_name) (\<lambda>m.
       if m then Inr area else first_with_name rest area_name)"

definition get_area_info :: "manager \<Rightarrow> pyval \<Rightarrow> pyval result" where
  "get_area_info s area_name =
     and_then (get_all_areas s) (\<lambda>listing.
     and_then (py_iter listing) (\<lambda>recs. first_with_name recs area_name))"

subsection \<open>Cross-referencing\<close>

definition get_property_insights :: "manager \<Rightarrow> pyval \<Rightarrow> pyval result" where
  "get_property_insights s property_id =
     and_then (get_property_by_id s property_id) (\<lambda>prop.
       if \<not> py_truthy prop then Inr (PDict [])
       else
     and_then (py_get prop (PStr ''area'') PNone) (\<lambda>area.
     and_then (py_get prop (PStr ''agent_id'') PNone) (\<lambda>agent_id.
     and_then (get_agent_by_id s agent_id) (\<lambda>agent.
     and_then (get_area_info s area) (\<lambda>area_info.
     and_then (get_area_market_data s area) (\<lambda>area_market_data.
     and_then (get_sales_by_area s area) (\<lambda>comparable_sales.
     and_then (get_area_amenities s area) (\<lambda>area_amenities.
       Inr (PDict
         [(''property'', prop), (''agent'', agent), (''area_info'', area_info),
          (''area_market_data'', area_market_data),
          (''comparable_sales'', comparable_sales),
          (''area_amenities'', area_amenities)])))))))))"

section \<open>Vocabulary of the properties\<close>

text \<open>A record is a dictionary; the other values have no \<^verbatim>\<open>get\<close>.\<close>

fun is_record :: "pyval \<Rightarrow> bool" where
  "is_record (PDict d) = True"
| "is_record v = False"

text \<open>The record's \<^verbatim>\<open>id\<close> (\<^verbatim>\<open>None\<close> when it has none) equals the wanted one.\<close>

fun has_id :: "pyval \<Rightarrow> pyval \<Rightarrow> bool" where
  "has_id wanted (PDict d) =
     py_eq (case map_of d ''id'' of None \<Rightarrow> PNone | Some v \<Rightarrow> v) wanted"
| "has_id wanted v = False"








subsection \<open>Example stores\<close>

definition empty_store :: manager where
  "empty_store =
     \<lparr>properties = PDict [], agents = PDict [], market = PDict [], clients = PDict [],
      amenities = PDict [], transactions = PDict [], areas_doc = PDict []\<rparr>"

text \<open>One listing that records no area, and one area.\<close>

definition sparse_store :: manager where
  "sparse_store =
     empty_store
       \<lparr>properties := PDict [(''active_listings'', PList [PDict [(''id'', PStr ''p1'')]])],
        areas_doc := PDict [(''areas'', PList [PDict [(''name'', PStr ''Downtown'')]])]\<rparr>"

text \<open>The two listings of the specification's filter scenario.\<close>

definition p1 :: pyval where
  "p1 = PDict [(''id'', PStr ''p1''), (''price'', PNum 500000), (''bedrooms'', PNum 3),
               (''area'', PStr ''Downtown'')]"

definition p2 :: pyval where
  "p2 = PDict [(''id'', PStr ''p2''), (''price'', PNum 750000), (''bedrooms'', PNum 4),
               (''area'', PStr ''Uptown'')]"

definition two_listings :: manager where
  "two_listings = empty_store\<lparr>properties := PDict [(''active_listings'', PList [p1, p2])]\<rparr>"

text \<open>A store with every document filled in; two agents share the id \<^verbatim>\<open>a1\<close>.\<close>

definition city_store :: manager where
  "city_store =
     \<lparr>properties = PDict [(''active_listings'', PList [p1, p2])],
      agents = PDict [(''agents'', PList
        [PDict [(''id'', PStr ''a1''), (''name'', PStr ''Ann'')],
         PDict [(''id'', PStr ''a2''), (''name'', PStr ''Bob'')],
         PDict [(''id'', PStr ''a1''), (''name'', PStr ''Cy'')]])],
      market = PDict [],
      clients = PDict [(''clients'', PList
        [PDict [(''id'', PStr ''c1''), (''type'', PStr ''Seller''),
                (''preferences'', PDict [(''desired_areas'', PList [PStr ''Uptown''])])],
         PDict [(''id'', PStr ''c2'')]])],
      amenities = PDict
        [(''schools'', PDict
           [(''high_schools'', PList [PStr ''h1'']),
            (''elementary_schools'', PList [PStr ''e1'', PStr ''e2'']),
            (''private_schools'', PList [PStr ''v1''])]),
         (''libraries'', PList [PStr ''Central''])],
      transactions = PDict [(''recent_sales'', PList
        [PDict [(''sale_price'', PNum 10), (''area'', PStr ''Downtown'')]])],
      areas_doc = PDict [(''areas'', PList
        [PDict [(''name'', PStr ''Downtown'')], PDict [(''name'', PStr ''Uptown'')]])]\<rparr>"

text \<open>The school buckets of \<open>city_store\<close>.\<close>

definition city_bucket :: "string \<Rightarrow> pyval list" where
  "city_bucket t =
     (if t = ''elementary_schools'' then [PStr ''e1'', PStr ''e2'']
      else if t = ''high_schools'' then [PStr ''h1'']
      else if t = ''private_schools'' then [PStr ''v1''] else [])"


section \<open>Basic facts\<close>

lemma and_then_Inr_iff:
  "and_then m f = Inr y \<longleftrightarrow> (\<exists>v. m = Inr v \<and> f v = Inr y)"
  by (cases m) auto

lemma get_all_two_listings: "get_all_properties two_listings = Inr (PList [p1, p2])"
  by (simp add: get_all_properties_def two_listings_def empty_store_def)

section \<open>Filtering\<close>

lemma matches_unset: "matches_filter prop unset_filter = Inr True"
  by (simp add: matches_filter_def unset_filter_def below_min_def above_max_def not_among_def
      reject_if_def)

lemma filter_loop_unset: "filter_loop ps unset_filter = Inr ps"
  by (induction ps) (simp_all add: matches_unset)

text \<open>
  C4.  With a filter whose fields are all unset, \<open>filter_properties\<close> returns the
  sequence \<open>get_all_properties\<close> returns, in the same order; when the listing cannot be
  read, both fail with the same error.
\<close>

theorem unset_filter_returns_all:
  "(get_all_properties s = Inr (PList ps) \<longrightarrow>
      filter_properties s unset_filter = Inr (PList ps))
   \<and> (get_all_properties s = Inl e \<longrightarrow> filter_properties s unset_filter = Inl e)"
  by (simp add: filter_properties_def filter_loop_unset)

theorem unset_filter_returns_all_witness:
  "get_all_properties two_listings = Inr (PList [p1, p2])
   \<and> filter_properties two_listings unset_filter = Inr (PList [p1, p2])"
  using unset_filter_returns_all [of two_listings "[p1, p2]"] get_all_two_listings by simp

lemma filter_loop_subseq: "filter_loop ps f = Inr qs \<Longrightarrow> subseq qs ps"
proof (induction ps arbitrary: qs)
  case Nil
  then show ?case by simp
next
  case (Cons p ps)
  from Cons.prems obtain m rest where
    m: "matches_filter p f = Inr m" and rest: "filter_loop ps f = Inr rest"
    and qs: "qs = (if m then p # rest else rest)"
    by (auto simp: and_then_Inr_iff)
  from Cons.IH [OF rest] have "subseq rest ps" .
  with qs show ?case by (cases m) auto
qed

text \<open>
  C5.  Whatever the filter, the records \<open>filter_properties\<close> returns form a
  subsequence of the full listing: each of them occurs in the listing, and they keep
  their relative order.
\<close>

theorem filter_is_subsequence:
  assumes "get_all_properties s = Inr (PList ps)"
    and "filter_properties s f = Inr (PList qs)"
  shows "subseq qs ps \<and> set qs \<subseteq> set ps"
proof -
  from assms have "filter_loop ps f = Inr qs"
    by (auto simp: filter_properties_def and_then_Inr_iff)
  then have "subseq qs ps" by (rule filter_loop_subseq)
  then show ?thesis by (auto dest: list_emb_set)
qed

lemma matches_p1: "matches_filter p1 (unset_filter\<lparr>min_price := PNum 600000\<rparr>) = Inr False"
  by (simp add: matches_filter_def unset_filter_def below_min_def above_max_def not_among_def
      reject_if_def p1_def)

lemma matches_p2: "matches_filter p2 (unset_filter\<lparr>min_price := PNum 600000\<rparr>) = Inr True"
  by (simp add: matches_filter_def unset_filter_def below_min_def above_max_def not_among_def
      reject_if_def p2_def)

lemma filter_two_listings:
  "filter_properties two_listings (unset_filter\<lparr>min_price := PNum 600000\<rparr>) = Inr (PList [p2])"
  by (simp add: filter_properties_def get_all_two_listings matches_p1 matches_p2)

theorem filter_is_subsequence_witness:
  "get_all_properties two_listings = Inr (PList [p1, p2])
   \<and> filter_properties two_listings (unset_filter\<lparr>min_price := PNum 600000\<rparr>) = Inr (PList [p2])
   \<and> subseq [p2] [p1, p2] \<and> set [p2] \<subseteq> set [p1, p2]"
  using filter_is_subsequence [OF get_all_two_listings filter_two_listings]
    get_all_two_listings filter_two_listings by simp

lemma filter_loop_cong:
  "(\<And>p. matches_filter p f = matches_filter p g) \<Longrightarrow> filter_loop ps f = filter_loop ps g"
  by (induction ps) simp_all

lemma filter_properties_cong:
  "(\<And>p. matches_filter p f = matches_filter p g) \<Longrightarrow>
   filter_properties s f = filter_properties s g"
  by (simp add: filter_properties_def filter_loop_cong [of f g])

text \<open>
  C3.  A lower bound of 0 behaves as an unset one: for each of \<open>min_price\<close>,
  \<open>min_bedrooms\<close>, \<open>min_bathrooms\<close> and \<open>min_sqft\<close>, whatever the store and the other
  fields of the filter, \<open>filter_properties\<close> gives the same outcome for the value 0 and
  for \<^verbatim>\<open>None\<close>.
\<close>

theorem zero_min_is_unset:
  "filter_properties s (f\<lparr>min_price := PNum 0\<rparr>) = filter_properties s (f\<lparr>min_price := PNone\<rparr>)
   \<and> filter_properties s (f\<lparr>min_bedrooms := PNum 0\<rparr>)
       = filter_properties s (f\<lparr>min_bedrooms := PNone\<rparr>)
   \<and> filter_properties s (f\<lparr>min_bathrooms := PNum 0\<rparr>)
       = filter_properties s (f\<lparr>min_bathrooms := PNone\<rparr>)
   \<and> filter_properties s (f\<lparr>min_sqft := PNum 0\<rparr>) = filter_properties s (f\<lparr>min_sqft := PNone\<rparr>)"
  by (intro conjI filter_properties_cong) (simp_all add: matches_filter_def below_min_def)

theorem zero_min_is_unset_witness:
  "filter_properties two_listings (unset_filter\<lparr>min_price := PNum 0\<rparr>) = Inr (PList [p1, p2])"
proof -
  have "unset_filter\<lparr>min_price := PNone\<rparr> = unset_filter"
    by (simp add: unset_filter_def)
  then have "filter_properties two_listings (unset_filter\<lparr>min_price := PNone\<rparr>)
      = Inr (PList [p1, p2])"
    by (simp add: filter_properties_def get_all_two_listings filter_loop_unset)
  with zero_min_is_unset [of two_listings unset_filter] show ?thesis by simp
qed

section \<open>Amenities\<close>

lemma extend_schools_buckets:
  "\<forall>t\<in>set ts. py_get sd (PStr t) (PList []) = Inr (PList (bucket t)) \<Longrightarrow>
   extend_schools sd ts acc = Inr (acc @ concat (map bucket ts))"
  by (induction ts arbitrary: acc) simp_all

text \<open>
  C6.  When the amenities document has a \<^verbatim>\<open>schools\<close> mapping \<open>sd\<close> (the empty one when
  the key is absent) whose four buckets are the lists \<open>bucket t\<close> (empty for an absent
  bucket), \<open>get_schools_by_area\<close> returns the elementary, middle, high and private
  schools concatenated in that order.  And for every store, any two area arguments
  give the same outcome.
\<close>

theorem schools_ignore_area:
  "(py_get (amenities s) (PStr ''schools'') (PDict []) = Inr sd
    \<and> (\<forall>t\<in>set school_types. py_get sd (PStr t) (PList []) = Inr (PList (bucket t)))
    \<longrightarrow> get_schools_by_area s area =
          Inr (PList (bucket ''elementary_schools'' @ bucket ''middle_schools''
                      @ bucket ''high_schools'' @ bucket ''private_schools'')))
   \<and> get_schools_by_area s area = get_schools_by_area s area'"
proof (intro conjI impI)
  assume h: "py_get (amenities s) (PStr ''schools'') (PDict []) = Inr sd
    \<and> (\<forall>t\<in>set school_types. py_get sd (PStr t) (PList []) = Inr (PList (bucket t)))"
  then have "extend_schools sd school_types [] = Inr ([] @ concat (map bucket school_types))"
    by (intro extend_schools_buckets) simp
  with h show "get_schools_by_area s area =
          Inr (PList (bucket ''elementary_schools'' @ bucket ''middle_schools''
                      @ bucket ''high_schools'' @ bucket ''private_schools''))"
    by (simp add: get_schools_by_area_def school_types_def)
next
  show "get_schools_by_area s area = get_schools_by_area s area'"
    by (simp add: get_schools_by_area_def)
qed

theorem schools_ignore_area_witness:
  "get_schools_by_area city_store (PStr ''Uptown'')
     = Inr (PList [PStr ''e1'', PStr ''e2'', PStr ''h1'', PStr ''v1''])
   \<and> get_schools_by_area city_store PNone
     = Inr (PList [PStr ''e1'', PStr ''e2'', PStr ''h1'', PStr ''v1''])"
proof -
  let ?sd = "PDict [(''high_schools'', PList [PStr ''h1'']),
            (''elementary_schools'', PList [PStr ''e1'', PStr ''e2'']),
            (''private_schools'', PList [PStr ''v1''])]"
  have a: "py_get (amenities city_store) (PStr ''schools'') (PDict []) = Inr ?sd"
    by (simp add: city_store_def)
  have b: "\<forall>t\<in>set school_types. py_get ?sd (PStr t) (PList []) = Inr (PList (city_bucket t))"
    by (simp add: school_types_def city_bucket_def)
  from a b schools_ignore_area [of city_store ?sd city_bucket "PStr ''Uptown''" PNone]
  have "get_schools_by_area city_store (PStr ''Uptown'')
      = Inr (PList (city_bucket ''elementary_schools'' @ city_bucket ''middle_schools''
                      @ city_bucket ''high_schools'' @ city_bucket ''private_schools''))"
    and "get_schools_by_area city_store (PStr ''Uptown'') = get_schools_by_area city_store PNone"
    by blast+
  then show ?thesis by (simp add: city_bucket_def)
qed

text \<open>
  C10.  For an amenities document \<open>d\<close>: a type that is not a key of \<open>d\<close> yields the
  empty dictionary, which is no list, while a type whose value is a list yields that
  list.  The operation so has two result shapes.
\<close>

theorem absent_amenity_type_is_dict:
  assumes "amenities s = PDict d"
  shows "(map_of d t = None \<longrightarrow> get_amenities_by_type s (PStr t) = Inr (PDict []))
    \<and> (map_of d t = Some (PList xs) \<longrightarrow> get_amenities_by_type s (PStr t) = Inr (PList xs))
    \<and> PDict [] \<noteq> PList ys"
  using assms by (simp add: get_amenities_by_type_def)

theorem absent_amenity_type_is_dict_witness:
  "get_amenities_by_type city_store (PStr ''museums'') = Inr (PDict [])
   \<and> get_amenities_by_type city_store (PStr ''libraries'') = Inr (PList [PStr ''Central''])"
proof -
  let ?d = "[(''schools'', PDict
           [(''high_schools'', PList [PStr ''h1'']),
            (''elementary_schools'', PList [PStr ''e1'', PStr ''e2'']),
            (''private_schools'', PList [PStr ''v1''])]),
         (''libraries'', PList [PStr ''Central''])]"
  have a: "amenities city_store = PDict ?d"
    by (simp add: city_store_def)
  have "map_of ?d ''museums'' = None" and "map_of ?d ''libraries'' = Some (PList [PStr ''Central''])"
    by simp_all
  with absent_amenity_type_is_dict [OF a, of "''museums''"]
    absent_amenity_type_is_dict [OF a, of "''libraries''" "[PStr ''Central'']"]
  show ?thesis by blast
qed

section \<open>Property insights\<close>

text \<open>
  C1.  \<open>sparse_store\<close> holds the listing \<^verbatim>\<open>{"id": "p1"}\<close>, which records no area, and
  one area record.  \<open>get_property_insights\<close> finds the listing, reads its area as
  \<^verbatim>\<open>None\<close> and passes it to \<open>get_area_info\<close>, where \<^verbatim>\<open>area_name.lower()\<close> raises
  \<^verbatim>\<open>AttributeError\<close>: the call does not return a result.
\<close>

theorem insights_raise_without_area:
  "get_property_by_id sparse_store (PStr ''p1'') = Inr (PDict [(''id'', PStr ''p1'')])
   \<and> py_get (PDict [(''id'', PStr ''p1'')]) (PStr ''area'') PNone = Inr PNone
   \<and> get_area_info sparse_store PNone = Inl AttributeError
   \<and> get_property_insights sparse_store (PStr ''p1'') = Inl AttributeError"
  by (simp add: sparse_store_def empty_store_def get_property_insights_def
      get_property_by_id_def get_all_properties_def get_agent_by_id_def get_all_agents_def
      get_area_info_def get_all_areas_def lower_field_is_def)

section \<open>Market trends\<close>

lemma and_then_no_zdiv:
  "m \<noteq> Inl ZeroDivisionError \<Longrightarrow> (\<And>v. m = Inr v \<Longrightarrow> f v \<noteq> Inl ZeroDivisionError)
   \<Longrightarrow> and_then m f \<noteq> Inl ZeroDivisionError"
  by (cases m) auto

lemma py_get_no_zdiv: "py_get a k d \<noteq> Inl ZeroDivisionError"
  by (induction a k d rule: py_get.induct) simp_all

lemma py_lower_no_zdiv: "py_lower v \<noteq> Inl ZeroDivisionError"
  by (cases v) simp_all

lemma py_iter_no_zdiv: "py_iter v \<noteq> Inl ZeroDivisionError"
  by (cases v) simp_all

lemma py_len_no_zdiv: "py_len v \<noteq> Inl ZeroDivisionError"
  by (cases v) simp_all

lemma py_add_no_zdiv: "py_add a b \<noteq> Inl ZeroDivisionError"
  by (simp add: py_add_def split: option.split)

lemma py_div_no_zdiv: "0 < n \<Longrightarrow> py_div a n \<noteq> Inl ZeroDivisionError"
  by (simp add: py_div_def split: option.split)

lemma lower_field_is_no_zdiv: "lower_field_is key r name \<noteq> Inl ZeroDivisionError"
  unfolding lower_field_is_def
  by (intro and_then_no_zdiv py_get_no_zdiv py_lower_no_zdiv) simp

lemma in_area_no_zdiv: "in_area xs area \<noteq> Inl ZeroDivisionError"
proof (induction xs)
  case Nil
  show ?case by simp
next
  case (Cons x xs)
  show ?case
    unfolding in_area.simps
    by (intro and_then_no_zdiv lower_field_is_no_zdiv Cons.IH) simp
qed

lemma get_recent_sales_no_zdiv: "get_recent_sales s \<noteq> Inl ZeroDivisionError"
  by (simp add: get_recent_sales_def py_get_no_zdiv)

lemma get_sales_by_area_no_zdiv: "get_sales_by_area s area \<noteq> Inl ZeroDivisionError"
  unfolding get_sales_by_area_def
  by (intro and_then_no_zdiv get_recent_sales_no_zdiv py_iter_no_zdiv in_area_no_zdiv) simp

lemma selected_sales_no_zdiv: "selected_sales s area \<noteq> Inl ZeroDivisionError"
  by (simp add: selected_sales_def get_recent_sales_no_zdiv get_sales_by_area_no_zdiv)

lemma sum_field_no_zdiv: "sum_field recs key acc \<noteq> Inl ZeroDivisionError"
proof (induction recs arbitrary: acc)
  case Nil
  show ?case by simp
next
  case (Cons r recs)
  show ?case
    unfolding sum_field.simps
    by (intro and_then_no_zdiv py_get_no_zdiv py_add_no_zdiv Cons.IH)
qed

lemma average_no_zdiv: "0 < n \<Longrightarrow> average sales key n \<noteq> Inl ZeroDivisionError"
  unfolding average_def
  by (intro and_then_no_zdiv py_iter_no_zdiv sum_field_no_zdiv py_div_no_zdiv)

lemma truthy_len_pos: "py_truthy v \<Longrightarrow> py_len v = Inr n \<Longrightarrow> 0 < n"
  by (cases v) auto

lemma trends_body_no_zdiv:
  "(if \<not> py_truthy sales then Inr (PDict [])
       else
     and_then (py_len sales) (\<lambda>total_sales.
     and_then (average sales ''sale_price'' total_sales) (\<lambda>avg_sale_price.
     and_then (average sales ''days_on_market'' total_sales) (\<lambda>avg_days_on_market.
     and_then (average sales ''price_per_sqft'' total_sales) (\<lambda>avg_price_per_sqft.
       Inr (PDict
         [(''total_sales'', PNum (of_nat total_sales)),
          (''average_sale_price'', avg_sale_price),
          (''average_days_on_market'', avg_days_on_market),
          (''average_price_per_sqft'', avg_price_per_sqft),
          (''area'', if py_truthy area then area else PStr ''All Areas'')])))))) \<noteq> Inl ZeroDivisionError"
proof (cases "py_truthy sales")
  case False
  then show ?thesis by simp
next
  case True
  show ?thesis
  proof (cases "py_len sales")
    case (Inl e)
    with True py_len_no_zdiv [of sales] show ?thesis by simp
  next
    case (Inr n)
    with True have "0 < n" by (rule truthy_len_pos)
    then have "and_then (average sales ''sale_price'' n) (\<lambda>avg_sale_price.
     and_then (average sales ''days_on_market'' n) (\<lambda>avg_days_on_market.
     and_then (average sales ''price_per_sqft'' n) (\<lambda>avg_price_per_sqft.
       Inr (PDict
         [(''total_sales'', PNum (of_nat n)),
          (''average_sale_price'', avg_sale_price),
          (''average_days_on_market'', avg_days_on_market),
          (''average_price_per_sqft'', avg_price_per_sqft),
          (''area'', if py_truthy area then area else PStr ''All Areas'')])))) \<noteq> Inl ZeroDivisionError"
      by (intro and_then_no_zdiv average_no_zdiv) simp_all
    with True Inr show ?thesis by simp
  qed
qed

text \<open>
  C7.  When the sales that \<open>calculate_market_trends\<close> selects are the empty list (the
  sales of the area when the area argument is a non-empty string, all recent sales when
  it is \<^verbatim>\<open>None\<close> or empty), the result is the empty dictionary.  And on no store and no
  area argument does the call end in \<^verbatim>\<open>ZeroDivisionError\<close>: the divisions are reached
  only with a positive count.
\<close>

theorem trends_empty_no_division:
  "(py_truthy area \<and> get_sales_by_area s area = Inr (PList [])
      \<longrightarrow> calculate_market_trends s area = Inr (PDict []))
   \<and> (\<not> py_truthy area \<and> get_recent_sales s = Inr (PList [])
      \<longrightarrow> calculate_market_trends s area = Inr (PDict []))
   \<and> calculate_market_trends s area \<noteq> Inl ZeroDivisionError"
proof (intro conjI impI)
  show "calculate_market_trends s area \<noteq> Inl ZeroDivisionError"
    unfolding calculate_market_trends_def
    by (intro and_then_no_zdiv selected_sales_no_zdiv trends_body_no_zdiv)
qed (simp_all add: calculate_market_trends_def selected_sales_def)

theorem trends_empty_no_division_witness:
  "get_sales_by_area city_store (PStr ''Uptown'') = Inr (PList [])
   \<and> calculate_market_trends city_store (PStr ''Uptown'') = Inr (PDict [])
   \<and> get_recent_sales empty_store = Inr (PList [])
   \<and> calculate_market_trends empty_store PNone = Inr (PDict [])"
proof -
  have a: "get_sales_by_area city_store (PStr ''Uptown'') = Inr (PList [])"
    by (simp add: get_sales_by_area_def get_recent_sales_def city_store_def lower_field_is_def
        lower_def lower_char_def)
  have b: "get_recent_sales empty_store = Inr (PList [])"
    by (simp add: get_recent_sales_def empty_store_def)
  from a b trends_empty_no_division [of "PStr ''Uptown''" city_store]
    trends_empty_no_division [of PNone empty_store]
  show ?thesis by simp
qed

section \<open>Lookups\<close>

lemma py_eq_PStr: "py_eq v (PStr s) = (v = PStr s)"
  by (cases v) auto

lemma first_with_id_filter:
  "list_all is_record rs \<Longrightarrow>
   first_with_id rs wanted = Inr (case filter (has_id wanted) rs of [] \<Rightarrow> PNone | r # others \<Rightarrow> r)"
proof (induction rs)
  case Nil
  show ?case by simp
next
  case (Cons r rs)
  then obtain d where "r = PDict d" by (cases r) simp_all
  with Cons show ?case by simp
qed






lemma get_all_city_clients:
  "get_all_clients city_store = Inr (PList
        [PDict [(''id'', PStr ''c1''), (''type'', PStr ''Seller''),
                (''preferences'', PDict [(''desired_areas'', PList [PStr ''Uptown''])])],
         PDict [(''id'', PStr ''c2'')]])"
  by (simp add: get_all_clients_def city_store_def)





text \<open>
  C8.  When no client record has the wanted id, or the first one that has it records no
  \<^verbatim>\<open>type\<close> or a type other than \<^verbatim>\<open>"Buyer"\<close>, \<open>match_clients_to_properties\<close> returns the
  empty list; the client's preferences are not read.
\<close>

theorem non_buyer_matches_nothing:
  assumes "get_all_clients s = Inr (PList cs)" and "list_all is_record cs"
    and "filter (has_id client_id) cs = []
       \<or> (\<exists>d others. filter (has_id client_id) cs = PDict d # others
                       \<and> map_of d ''type'' \<noteq> Some (PStr ''Buyer''))"
  shows "match_clients_to_properties s client_id = Inr (PList [])"
proof -
  have c: "get_client_by_id s client_id
      = Inr (case filter (has_id client_id) cs of [] \<Rightarrow> PNone | r # others \<Rightarrow> r)"
    using assms(1,2) by (simp add: get_client_by_id_def first_with_id_filter)
  from assms(3) show ?thesis
  proof
    assume "filter (has_id client_id) cs = []"
    with c show ?thesis by (simp add: match_clients_to_properties_def)
  next
    assume "\<exists>d others. filter (has_id client_id) cs = PDict d # others
                       \<and> map_of d ''type'' \<noteq> Some (PStr ''Buyer'')"
    then obtain d others where f: "filter (has_id client_id) cs = PDict d # others"
      and t: "map_of d ''type'' \<noteq> Some (PStr ''Buyer'')" by blast
    from c f have "get_client_by_id s client_id = Inr (PDict d)" by simp
    with t show ?thesis
      by (simp add: match_clients_to_properties_def py_eq_PStr split: option.split)
  qed
qed

theorem non_buyer_matches_nothing_witness:
  "match_clients_to_properties city_store (PStr ''c1'') = Inr (PList [])
   \<and> match_clients_to_properties city_store (PStr ''c2'') = Inr (PList [])
   \<and> match_clients_to_properties city_store (PStr ''c9'') = Inr (PList [])"
proof -
  let ?cs = "[PDict [(''id'', PStr ''c1''), (''type'', PStr ''Seller''),
                (''preferences'', PDict [(''desired_areas'', PList [PStr ''Uptown''])])],
         PDict [(''id'', PStr ''c2'')]]"
  have r: "list_all is_record ?cs" by simp
  have "match_clients_to_properties city_store (PStr ''c1'') = Inr (PList [])"
    by (rule non_buyer_matches_nothing [OF get_all_city_clients r]) simp
  moreover have "match_clients_to_properties city_store (PStr ''c2'') = Inr (PList [])"
    by (rule non_buyer_matches_nothing [OF get_all_city_clients r]) simp
  moreover have "match_clients_to_properties city_store (PStr ''c9'') = Inr (PList [])"
    by (rule non_buyer_matches_nothing [OF get_all_city_clients r]) simp
  ultimately show ?thesis by blast
qed

section \<open>Bounds on a missing field\<close>


text \<open>
  An upper bound of \<^verbatim>\<open>float("inf")\<close> does not reject a record without the field
  either (the default is not greater than it); the statement below is about finite
  bounds, as the claim is.
\<close>

lemma infinite_max_matches:
  "matches_filter (PDict []) (unset_filter\<lparr>max_bathrooms := PInf\<rparr>) = Inr True"
  by (simp add: matches_filter_def unset_filter_def below_min_def above_max_def not_among_def
      reject_if_def)

text \<open>
  The checks run in a fixed order, and a comparison with a value that is no number
  raises: with \<^verbatim>\<open>min_price = "cheap"\<close> the record \<^verbatim>\<open>{}\<close> is not rejected by
  \<^verbatim>\<open>max_price = 5\<close>, because \<^verbatim>\<open>0 < "cheap"\<close> raises \<^verbatim>\<open>TypeError\<close> first.  So a bound can
  only be said to make the call return \<^verbatim>\<open>False\<close> when the checks before it return.
\<close>

lemma earlier_check_raises:
  "matches_filter (PDict []) (unset_filter\<lparr>min_price := PStr ''cheap'', max_price := PNum 5\<rparr>)
     = Inl TypeError"
  by (simp add: matches_filter_def unset_filter_def below_min_def reject_if_def)
















end
